theory Spec2Isabelle
  imports Main "HOL-Library.Char_ord" "HOL-Library.List_Lexorder"
begin

section \<open>Characters and strings of the scanned text\<close>

text \<open>
  The scanner works on Python \<^verbatim>\<open>str\<close> values.  A character of the model is a
  \<^typ>\<open>char\<close>, read as the code point of that number (0 to 255, the Latin-1 range); a
  string is a list of them.  The three character classes below are the ones Python's
  \<^verbatim>\<open>re\<close> module uses for \<^verbatim>\<open>\s\<close>, \<^verbatim>\<open>\d\<close> and \<^verbatim>\<open>\w\<close> on \<^verbatim>\<open>str\<close> patterns, restricted
  to these code points, and \<open>py_lower\<close> is \<^verbatim>\<open>str.lower\<close> there.
\<close>

definition code :: "char \<Rightarrow> nat" where
  "code c = of_char c"

definition is_space :: "char \<Rightarrow> bool" where
  "is_space c = (let n = code c in
     (9 \<le> n \<and> n \<le> 13) \<or> (28 \<le> n \<and> n \<le> 32) \<or> n = 133 \<or> n = 160)"

definition is_digit :: "char \<Rightarrow> bool" where
  "is_digit c = (let n = code c in 48 \<le> n \<and> n \<le> 57)"

definition is_word :: "char \<Rightarrow> bool" where
  "is_word c = (let n = code c in
     (48 \<le> n \<and> n \<le> 57) \<or> (65 \<le> n \<and> n \<le> 90) \<or> n = 95 \<or> (97 \<le> n \<and> n \<le> 122) \<or>
     n = 170 \<or> n = 178 \<or> n = 179 \<or> n = 181 \<or> n = 185 \<or> n = 186 \<or>
     (188 \<le> n \<and> n \<le> 190) \<or> (192 \<le> n \<and> n \<le> 214) \<or> (216 \<le> n \<and> n \<le> 246) \<or>
     248 \<le> n)"

definition py_lower_char :: "char \<Rightarrow> char" where
  "py_lower_char c = (let n = code c in
     if (65 \<le> n \<and> n \<le> 90) \<or> (192 \<le> n \<and> n \<le> 214) \<or> (216 \<le> n \<and> n \<le> 222)
     then char_of (n + 32) else c)"

definition py_lower :: "string \<Rightarrow> string" where
  "py_lower s = map py_lower_char s"

text \<open>\<^verbatim>\<open>str.strip()\<close>: leading and trailing whitespace removed.\<close>

definition py_strip :: "string \<Rightarrow> string" where
  "py_strip s = rev (dropWhile is_space (rev (dropWhile is_space s)))"

text \<open>\<^verbatim>\<open>pattern in path_str\<close>: the substring test of Python strings.\<close>

fun starts_with :: "string \<Rightarrow> string \<Rightarrow> bool" where
  "starts_with s [] = True"
| "starts_with [] (x # xs) = False"
| "starts_with (c # cs) (x # xs) = (c = x \<and> starts_with cs xs)"

fun py_in :: "string \<Rightarrow> string \<Rightarrow> bool" where
  "py_in pat [] = (pat = [])"
| "py_in pat (c # cs) = (starts_with (c # cs) pat \<or> py_in pat cs)"


section \<open>The regular expressions of the pattern catalog\<close>

text \<open>
  The patterns of \<^verbatim>\<open>scanner.py\<close> are built from literal text, one-character atoms
  (a character, a class, a negated class, the dot), repetition of an atom (\<^verbatim>\<open>*\<close>, \<^verbatim>\<open>+\<close>,
  \<^verbatim>\<open>?\<close>, the lazy \<^verbatim>\<open>*?\<close>), the word boundary \<^verbatim>\<open>\b\<close>, sequence and alternation.  Every
  repetition in the source is of a single atom, which the datatype records.
\<close>

datatype flag = IGNORECASE | DOTALL

datatype cls_item = CChr char | CWord | CDigit | CSpace

datatype atom = Chr char | Cls "cls_item list" | NCls "cls_item list" | AnyChar

datatype regex =
    Eps
  | Lit string
  | One atom
  | Star atom
  | Plus atom
  | LazyStar atom
  | Opt atom
  | Bnd
  | Seq regex regex
  | Alt regex regex

fun seqs :: "regex list \<Rightarrow> regex" where
  "seqs [] = Eps"
| "seqs [r] = r"
| "seqs (r # rs) = Seq r (seqs rs)"

fun alts :: "regex list \<Rightarrow> regex" where
  "alts [] = Eps"
| "alts [r] = r"
| "alts (r # rs) = Alt r (alts rs)"

text \<open>A pattern used only through \<^verbatim>\<open>search\<close>, and a pattern whose group 1 is read:
  the text before the group, the group, the text after it.\<close>

datatype pattern = Pat regex "flag list"

datatype gpattern = GPat regex regex regex "flag list"

subsection \<open>Matching\<close>

text \<open>
  A cursor is a position in the subject: the character just before it (none at the
  start) and the text from it on.  \<open>m\<close> lists the cursors at which a match of the
  expression started at the given cursor can end, in the order in which the backtracking
  matcher of \<^verbatim>\<open>re\<close> tries them (greedy repetition longest first, lazy shortest first,
  alternatives left to right).
\<close>

type_synonym cursor = "char option \<times> string"

definition chr_eq :: "flag list \<Rightarrow> char \<Rightarrow> char \<Rightarrow> bool" where
  "chr_eq fl x c = (if IGNORECASE \<in> set fl then py_lower_char x = py_lower_char c else x = c)"

fun item_ok :: "flag list \<Rightarrow> cls_item \<Rightarrow> char \<Rightarrow> bool" where
  "item_ok fl (CChr x) c = chr_eq fl x c"
| "item_ok fl CWord c = is_word c"
| "item_ok fl CDigit c = is_digit c"
| "item_ok fl CSpace c = is_space c"

fun atom_ok :: "flag list \<Rightarrow> atom \<Rightarrow> char \<Rightarrow> bool" where
  "atom_ok fl (Chr x) c = chr_eq fl x c"
| "atom_ok fl (Cls items) c = list_ex (\<lambda>i. item_ok fl i c) items"
| "atom_ok fl (NCls items) c = (\<not> list_ex (\<lambda>i. item_ok fl i c) items)"
| "atom_ok fl AnyChar c = (DOTALL \<in> set fl \<or> c \<noteq> CHR 0x0A)"

fun word_before :: "char option \<Rightarrow> bool" where
  "word_before None = False"
| "word_before (Some c) = is_word c"

fun word_after :: "string \<Rightarrow> bool" where
  "word_after [] = False"
| "word_after (c # cs) = is_word c"

definition at_boundary :: "char option \<Rightarrow> string \<Rightarrow> bool" where
  "at_boundary p rest = (word_before p \<noteq> word_after rest)"

fun m_lit :: "flag list \<Rightarrow> string \<Rightarrow> char option \<Rightarrow> string \<Rightarrow> cursor list" where
  "m_lit fl [] p rest = [(p, rest)]"
| "m_lit fl (x # xs) p [] = []"
| "m_lit fl (x # xs) p (c # cs) = (if chr_eq fl x c then m_lit fl xs (Some c) cs else [])"

fun m_star :: "(char \<Rightarrow> bool) \<Rightarrow> char option \<Rightarrow> string \<Rightarrow> cursor list" where
  "m_star P p [] = [(p, [])]"
| "m_star P p (c # cs) = (if P c then m_star P (Some c) cs @ [(p, c # cs)] else [(p, c # cs)])"

fun m_lazy :: "(char \<Rightarrow> bool) \<Rightarrow> char option \<Rightarrow> string \<Rightarrow> cursor list" where
  "m_lazy P p [] = [(p, [])]"
| "m_lazy P p (c # cs) = (if P c then (p, c # cs) # m_lazy P (Some c) cs else [(p, c # cs)])"

fun m_one :: "(char \<Rightarrow> bool) \<Rightarrow> string \<Rightarrow> cursor list" where
  "m_one P [] = []"
| "m_one P (c # cs) = (if P c then [(Some c, cs)] else [])"

fun m :: "flag list \<Rightarrow> regex \<Rightarrow> cursor \<Rightarrow> cursor list" where
  "m fl Eps cur = [cur]"
| "m fl (Lit xs) cur = m_lit fl xs (fst cur) (snd cur)"
| "m fl (One a) cur = m_one (atom_ok fl a) (snd cur)"
| "m fl (Star a) cur = m_star (atom_ok fl a) (fst cur) (snd cur)"
| "m fl (Plus a) cur =
     concat (map (\<lambda>c1. m_star (atom_ok fl a) (fst c1) (snd c1)) (m_one (atom_ok fl a) (snd cur)))"
| "m fl (LazyStar a) cur = m_lazy (atom_ok fl a) (fst cur) (snd cur)"
| "m fl (Opt a) cur = m_one (atom_ok fl a) (snd cur) @ [cur]"
| "m fl Bnd cur = (if at_boundary (fst cur) (snd cur) then [cur] else [])"
| "m fl (Seq a b) cur = concat (map (m fl b) (m fl a cur))"
| "m fl (Alt a b) cur = m fl a cur @ m fl b cur"

text \<open>\<^verbatim>\<open>pattern.search(s)\<close> as a truth value: some position of \<open>s\<close> starts a match.\<close>

fun search_from :: "flag list \<Rightarrow> regex \<Rightarrow> char option \<Rightarrow> string \<Rightarrow> bool" where
  "search_from fl r p [] = (m fl r (p, []) \<noteq> [])"
| "search_from fl r p (c # cs) = (m fl r (p, c # cs) \<noteq> [] \<or> search_from fl r (Some c) cs)"

fun search :: "pattern \<Rightarrow> string \<Rightarrow> bool" where
  "search (Pat r fl) s = search_from fl r None s"

text \<open>
  The matches of a pattern with a group at one cursor, in the matcher's order: the text
  of group 1 and the cursor where the whole match ends.
\<close>

fun match_at :: "gpattern \<Rightarrow> cursor \<Rightarrow> (string \<times> cursor) list" where
  "match_at (GPat a g b fl) cur =
     concat (map (\<lambda>c1.
       concat (map (\<lambda>c2.
         map (\<lambda>c3. (take (length (snd c1) - length (snd c2)) (snd c1), c3)) (m fl b c2))
       (m fl g c1)))
     (m fl a cur))"

text \<open>
  \<^verbatim>\<open>[match.group(1) for match in pattern.finditer(s)]\<close>: the leftmost match at or after
  the current position is taken (the first in the matcher's order at that start), and the
  scan resumes where it ended.  The counter is the number of characters of the last
  match still to be passed over.  A match of no characters moves the scan on by one
  character; no pattern of the catalog has one, each starting with literal text.
\<close>

fun finditer_from :: "gpattern \<Rightarrow> nat \<Rightarrow> char option \<Rightarrow> string \<Rightarrow> string list" where
  "finditer_from pt k p [] =
     (if k = 0 then (case match_at pt (p, []) of [] \<Rightarrow> [] | hit # _ \<Rightarrow> [fst hit]) else [])"
| "finditer_from pt 0 p (c # cs) =
     (case match_at pt (p, c # cs) of
        [] \<Rightarrow> finditer_from pt 0 (Some c) cs
      | hit # _ \<Rightarrow> fst hit # finditer_from pt (length cs - length (snd (snd hit))) (Some c) cs)"
| "finditer_from pt (Suc k) p (c # cs) = finditer_from pt k (Some c) cs"

definition finditer_group1 :: "gpattern \<Rightarrow> string \<Rightarrow> string list" where
  "finditer_group1 pt s = finditer_from pt 0 None s"


section \<open>The pattern catalog\<close>

definition dquote :: char where "dquote = CHR 0x22"
definition squote :: char where "squote = CHR 0x27"
definition btick :: char where "btick = CHR 0x60"

abbreviation "ws \<equiv> Cls [CSpace]"
abbreviation "wordc \<equiv> Cls [CWord]"
abbreviation "digit \<equiv> Cls [CDigit]"

text \<open>
  \<^verbatim>\<open>HYPERSCRIPT_PATTERNS\<close>, in the order of the source:
  \<^enum> \<^verbatim>\<open>_="([^"]*)"\<close>
  \<^enum> \<^verbatim>\<open>_='([^']*)'\<close>
  \<^enum> \<^verbatim>\<open>_=`([^`]*)`\<close>
  \<^enum> \<^verbatim>\<open>_=\{`([^`]+)`\}\<close>
  \<^enum> \<^verbatim>\<open>_=\{['\"]([^'\"]+)['\"]\}\<close>
  \<^enum> \<^verbatim>\<open>data-hs="([^"]*)"\<close>
  \<^enum> \<^verbatim>\<open>data-hs='([^']*)'\<close>
  \<^enum> \<^verbatim>\<open>\{%\s*hs\s*%\}(.*?)\{%\s*endhs\s*%\}\<close>, DOTALL
  \<^enum> \<^verbatim>\<open>\{%\s*hs_attr\s+"([^"]+)"\s*%\}\<close>
  \<^enum> \<^verbatim>\<open>\{%\s*hs_attr\s+'([^']+)'\s*%\}\<close>
  \<^enum> \<^verbatim>\<open>\{%\s*hs_script\s+"([^"]+)"\s*%\}\<close>
  \<^enum> \<^verbatim>\<open>\{%\s*hs_script\s+'([^']+)'\s*%\}\<close>
  \<^enum> \<^verbatim>\<open><script[^>]*type=["\']?text/hyperscript["\']?[^>]*>(.*?)</script>\<close>, DOTALL and
    IGNORECASE
\<close>

definition HYPERSCRIPT_PATTERNS :: "gpattern list" where
  "HYPERSCRIPT_PATTERNS =
   [ GPat (seqs [Lit ''_='', One (Chr dquote)]) (Star (NCls [CChr dquote])) (One (Chr dquote)) [],
     GPat (seqs [Lit ''_='', One (Chr squote)]) (Star (NCls [CChr squote])) (One (Chr squote)) [],
     GPat (seqs [Lit ''_='', One (Chr btick)]) (Star (NCls [CChr btick])) (One (Chr btick)) [],
     GPat (seqs [Lit ''_={'', One (Chr btick)]) (Plus (NCls [CChr btick]))
          (seqs [One (Chr btick), Lit ''}'']) [],
     GPat (seqs [Lit ''_={'', One (Cls [CChr squote, CChr dquote])])
          (Plus (NCls [CChr squote, CChr dquote]))
          (seqs [One (Cls [CChr squote, CChr dquote]), Lit ''}'']) [],
     GPat (seqs [Lit ''data-hs='', One (Chr dquote)]) (Star (NCls [CChr dquote]))
          (One (Chr dquote)) [],
     GPat (seqs [Lit ''data-hs='', One (Chr squote)]) (Star (NCls [CChr squote]))
          (One (Chr squote)) [],
     GPat (seqs [Lit ''{%'', Star ws, Lit ''hs'', Star ws, Lit ''%}''])
          (LazyStar AnyChar)
          (seqs [Lit ''{%'', Star ws, Lit ''endhs'', Star ws, Lit ''%}'']) [DOTALL],
     GPat (seqs [Lit ''{%'', Star ws, Lit ''hs_attr'', Plus ws, One (Chr dquote)])
          (Plus (NCls [CChr dquote]))
          (seqs [One (Chr dquote), Star ws, Lit ''%}'']) [],
     GPat (seqs [Lit ''{%'', Star ws, Lit ''hs_attr'', Plus ws, One (Chr squote)])
          (Plus (NCls [CChr squote]))
          (seqs [One (Chr squote), Star ws, Lit ''%}'']) [],
     GPat (seqs [Lit ''{%'', Star ws, Lit ''hs_script'', Plus ws, One (Chr dquote)])
          (Plus (NCls [CChr dquote]))
          (seqs [One (Chr dquote), Star ws, Lit ''%}'']) [],
     GPat (seqs [Lit ''{%'', Star ws, Lit ''hs_script'', Plus ws, One (Chr squote)])
          (Plus (NCls [CChr squote]))
          (seqs [One (Chr squote), Star ws, Lit ''%}'']) [],
     GPat (seqs [Lit ''<script'', Star (NCls [CChr CHR ''>'']), Lit ''type='',
                 Opt (Cls [CChr dquote, CChr squote]), Lit ''text/hyperscript'',
                 Opt (Cls [CChr dquote, CChr squote]), Star (NCls [CChr CHR ''>'']), Lit ''>''])
          (LazyStar AnyChar)
          (Lit ''</script>'') [DOTALL, IGNORECASE] ]"

text \<open>\<^verbatim>\<open>COMMAND_PATTERN\<close>: \<^verbatim>\<open>\b(toggle|add|...|return)\b\<close>, IGNORECASE.\<close>

definition COMMAND_PATTERN :: gpattern where
  "COMMAND_PATTERN =
     GPat Bnd
       (alts [Lit ''toggle'', Lit ''add'', Lit ''remove'', Lit ''removeClass'', Lit ''show'',
              Lit ''hide'', Lit ''set'', Lit ''get'', Lit ''put'', Lit ''append'',
              Lit ''take'', Lit ''increment'', Lit ''decrement'', Lit ''log'', Lit ''send'',
              Lit ''trigger'', Lit ''wait'', Lit ''transition'', Lit ''go'', Lit ''call'',
              Lit ''focus'', Lit ''blur'', Lit ''return''])
       Bnd [IGNORECASE]"

text \<open>
  \<^verbatim>\<open>BLOCK_PATTERNS\<close>, a dictionary iterated in insertion order: an association list.
  The groups of the \<^verbatim>\<open>repeat\<close> and \<^verbatim>\<open>for\<close> patterns are never read (only the truth value
  of \<^verbatim>\<open>search\<close> is), so they are plain alternations here.
\<close>

definition repeat_regex :: regex where
  "repeat_regex =
     seqs [Bnd, Lit ''repeat'', Plus ws,
           alts [Plus digit,
                 Seq (One (Chr CHR '':'')) (Plus wordc),
                 Seq (One (Chr CHR ''$'')) (Plus wordc),
                 Plus (Cls [CWord, CChr CHR ''.''])],
           Plus ws, Lit ''time'', Opt (Chr CHR ''s''), Bnd]"

definition BLOCK_PATTERNS :: "(string \<times> pattern) list" where
  "BLOCK_PATTERNS =
   [ (''if'', Pat (seqs [Bnd, Lit ''if'', Bnd]) [IGNORECASE]),
     (''unless'', Pat (seqs [Bnd, Lit ''unless'', Bnd]) [IGNORECASE]),
     (''repeat'', Pat repeat_regex [IGNORECASE]),
     (''for'', Pat (seqs [Bnd, Lit ''for'', Plus ws, alts [Lit ''each'', Lit ''every''], Bnd])
                [IGNORECASE]),
     (''while'', Pat (seqs [Bnd, Lit ''while'', Bnd]) [IGNORECASE]),
     (''fetch'', Pat (seqs [Bnd, Lit ''fetch'', Bnd]) [IGNORECASE]),
     (''async'', Pat (seqs [Bnd, Lit ''async'', Bnd]) [IGNORECASE]) ]"

text \<open>\<^verbatim>\<open>POSITIONAL_PATTERN\<close>: \<^verbatim>\<open>\b(first|last|next|previous|closest|parent)\b\<close>,
  IGNORECASE.\<close>

definition POSITIONAL_PATTERN :: pattern where
  "POSITIONAL_PATTERN =
     Pat (seqs [Bnd, alts [Lit ''first'', Lit ''last'', Lit ''next'', Lit ''previous'',
                           Lit ''closest'', Lit ''parent''], Bnd]) [IGNORECASE]"


section \<open>Usage records\<close>

record FileUsage =
  commands :: "string set"
  blocks :: "string set"
  positional :: bool

text \<open>\<^verbatim>\<open>FileUsage()\<close> with its default fields.\<close>

definition FileUsage_new :: FileUsage where
  "FileUsage_new = \<lparr>commands = {}, blocks = {}, positional = False\<rparr>"

text \<open>\<^verbatim>\<open>FileUsage.__bool__\<close>.\<close>

definition usage_bool :: "FileUsage \<Rightarrow> bool" where
  "usage_bool u = (commands u \<noteq> {} \<or> blocks u \<noteq> {} \<or> positional u)"

text \<open>
  \<^verbatim>\<open>FileUsage.merge\<close> seen as a function of the two values: the receiver after the call.
  The in-place version on a store of objects is \<open>merge_obj\<close> below.
\<close>

definition merge :: "FileUsage \<Rightarrow> FileUsage \<Rightarrow> FileUsage" where
  "merge self other =
     \<lparr>commands = commands self \<union> commands other,
      blocks = blocks self \<union> blocks other,
      positional = (if positional other then True else positional self)\<rparr>"


section \<open>Extractor and classifier\<close>

text \<open>\<^verbatim>\<open>Scanner.extract_hyperscript\<close>.\<close>

definition extract_hyperscript :: "string \<Rightarrow> string list" where
  "extract_hyperscript content =
     concat (map (\<lambda>pt. filter (\<lambda>script. script \<noteq> [])
                         (map py_strip (finditer_group1 pt content)))
                 HYPERSCRIPT_PATTERNS)"

text \<open>\<^verbatim>\<open>Scanner.analyze_script\<close>: the three passes.\<close>

definition detect_commands :: "string \<Rightarrow> string set" where
  "detect_commands script =
     fold (\<lambda>g cs. insert (py_lower g) cs) (finditer_group1 COMMAND_PATTERN script) {}"

definition detect_blocks :: "string \<Rightarrow> string set" where
  "detect_blocks script =
     fold (\<lambda>entry bs.
             if search (snd entry) script
             then (if fst entry = ''unless'' then insert ''if'' bs else insert (fst entry) bs)
             else bs)
          BLOCK_PATTERNS {}"

definition analyze_script :: "string \<Rightarrow> FileUsage" where
  "analyze_script script =
     \<lparr>commands = detect_commands script,
      blocks = detect_blocks script,
      positional = (if search POSITIONAL_PATTERN script then True else False)\<rparr>"


section \<open>The scanner\<close>

text \<open>
  A path is modelled by its string \<^verbatim>\<open>str(path)\<close>.  \<open>path_suffix\<close> is \<^verbatim>\<open>path.suffix\<close> of
  \<^verbatim>\<open>pathlib\<close>: in the final component, the text from the last dot on, unless that dot is
  the first or the last character of the component (then the suffix is empty).
\<close>

type_synonym path = string

definition path_name :: "path \<Rightarrow> string" where
  "path_name p = rev (takeWhile (\<lambda>c. c \<noteq> CHR ''/'') (rev p))"

definition path_suffix :: "path \<Rightarrow> string" where
  "path_suffix p =
     (let name = path_name p; ext = rev (takeWhile (\<lambda>c. c \<noteq> CHR ''.'') (rev name))
      in if CHR ''.'' \<in> set name \<and> ext \<noteq> [] \<and> length ext + 1 < length name
         then CHR ''.'' # ext else [])"

record Scanner =
  include_extensions :: "string set"
  exclude_patterns :: "string list"
  debug :: bool

definition default_include_extensions :: "string set" where
  "default_include_extensions = {''.html'', ''.htm'', ''.txt'', ''.xml'', ''.jinja'', ''.jinja2''}"

definition default_exclude_patterns :: "string list" where
  "default_exclude_patterns =
     [''__pycache__'', ''.git'', ''node_modules'', ''.venv'', ''venv'', ''site-packages'']"

text \<open>\<^verbatim>\<open>Scanner.__init__\<close>: \<^verbatim>\<open>x or default\<close> takes the default for \<^verbatim>\<open>None\<close> and for an empty
  collection.\<close>

definition Scanner_init :: "string set option \<Rightarrow> string list option \<Rightarrow> bool \<Rightarrow> Scanner" where
  "Scanner_init ie ep dbg =
     \<lparr>include_extensions =
        (case ie of None \<Rightarrow> default_include_extensions
         | Some exts \<Rightarrow> if exts = {} then default_include_extensions else exts),
      exclude_patterns =
        (case ep of None \<Rightarrow> default_exclude_patterns
         | Some pats \<Rightarrow> if pats = [] then default_exclude_patterns else pats),
      debug = dbg\<rparr>"

text \<open>\<^verbatim>\<open>Scanner.should_scan\<close>.\<close>

definition should_scan :: "Scanner \<Rightarrow> path \<Rightarrow> bool" where
  "should_scan sc p =
     (if py_lower (path_suffix p) \<notin> include_extensions sc then False
      else if list_ex (\<lambda>pattern. py_in pattern p) (exclude_patterns sc) then False
      else True)"

text \<open>
  What \<^verbatim>\<open>print\<close> writes is kept as a list of lines; a line is kept as the values that
  are formatted into it.  Writing a line is taken not to fail.
\<close>

datatype exn = FileNotFoundError | PermissionError | IsADirectoryError | UnicodeDecodeError | OSError

datatype log_line =
    Scanned path "string list" "string list" bool
  | ErrorReading path exn

text \<open>\<^verbatim>\<open>Scanner.scan_content\<close>.  \<open>usage\<close> and each \<open>script_usage\<close> are fresh objects, so
  the in-place merge is the merge of their values.\<close>

definition scan_content :: "Scanner \<Rightarrow> string \<Rightarrow> string \<Rightarrow> FileUsage \<times> log_line list" where
  "scan_content sc content file_path =
     (let usage = fold (\<lambda>script u. merge u (analyze_script script))
                       (extract_hyperscript content) FileUsage_new
      in (usage,
          if debug sc \<and> usage_bool usage
          then [Scanned file_path (sorted_list_of_set (commands usage))
                        (sorted_list_of_set (blocks usage)) (positional usage)]
          else []))"

text \<open>
  The file system the scanner reads: which paths exist, which are files, what
  \<^verbatim>\<open>directory.rglob("*")\<close> yields, and what \<^verbatim>\<open>path.read_text(encoding="utf-8")\<close> gives, the
  text or the exception it raises.  Every exception of \<open>exn\<close> is a subclass of
  \<^verbatim>\<open>Exception\<close>, which the handler of \<^verbatim>\<open>scan_file\<close> catches.
\<close>

record filesystem =
  exists :: "path \<Rightarrow> bool"
  is_file :: "path \<Rightarrow> bool"
  rglob :: "path \<Rightarrow> path list"
  read_text :: "path \<Rightarrow> exn + string"

text \<open>\<^verbatim>\<open>Scanner.scan_file\<close>: the result, or the exception that leaves the function.\<close>

definition scan_file ::
  "filesystem \<Rightarrow> Scanner \<Rightarrow> path \<Rightarrow> (exn + FileUsage) \<times> log_line list" where
  "scan_file fs sc p =
     (case read_text fs p of
        Inr content \<Rightarrow> (let r = scan_content sc content p in (Inr (fst r), snd r))
      | Inl e \<Rightarrow> (Inr FileUsage_new, if debug sc then [ErrorReading p e] else []))"

text \<open>\<^verbatim>\<open>Scanner.scan_directory\<close>: the loop over the paths, then the function.\<close>

fun scan_paths ::
  "filesystem \<Rightarrow> Scanner \<Rightarrow> path list \<Rightarrow> (path \<rightharpoonup> FileUsage) \<Rightarrow> log_line list \<Rightarrow>
   (exn + (path \<rightharpoonup> FileUsage)) \<times> log_line list" where
  "scan_paths fs sc [] results out = (Inr results, out)"
| "scan_paths fs sc (p # ps) results out =
     (if is_file fs p \<and> should_scan sc p
      then (case scan_file fs sc p of
              (Inl e, lines) \<Rightarrow> (Inl e, out @ lines)
            | (Inr usage, lines) \<Rightarrow>
                if usage_bool usage
                then scan_paths fs sc ps (results(p \<mapsto> usage)) (out @ lines)
                else scan_paths fs sc ps results (out @ lines))
      else scan_paths fs sc ps results out)"

definition scan_directory ::
  "filesystem \<Rightarrow> Scanner \<Rightarrow> path \<Rightarrow> (exn + (path \<rightharpoonup> FileUsage)) \<times> log_line list" where
  "scan_directory fs sc directory =
     (if \<not> exists fs directory then (Inr Map.empty, [])
      else scan_paths fs sc (rglob fs directory) Map.empty [])"

text \<open>\<^verbatim>\<open>Scanner.scan_directories\<close>; \<^verbatim>\<open>results.update(dir_results)\<close> is \<open>++\<close>.\<close>

fun scan_dirs ::
  "filesystem \<Rightarrow> Scanner \<Rightarrow> path list \<Rightarrow> (path \<rightharpoonup> FileUsage) \<Rightarrow> log_line list \<Rightarrow>
   (exn + (path \<rightharpoonup> FileUsage)) \<times> log_line list" where
  "scan_dirs fs sc [] results out = (Inr results, out)"
| "scan_dirs fs sc (d # ds) results out =
     (case scan_directory fs sc d of
        (Inl e, lines) \<Rightarrow> (Inl e, out @ lines)
      | (Inr dir_results, lines) \<Rightarrow> scan_dirs fs sc ds (results ++ dir_results) (out @ lines))"

definition scan_directories ::
  "filesystem \<Rightarrow> Scanner \<Rightarrow> path list \<Rightarrow> (exn + (path \<rightharpoonup> FileUsage)) \<times> log_line list" where
  "scan_directories fs sc directories = scan_dirs fs sc directories Map.empty []"


section \<open>Merge in place, on a store of objects\<close>

text \<open>
  \<^verbatim>\<open>FileUsage.merge\<close> as the source has it: a \<^verbatim>\<open>FileUsage\<close> object holds references to
  two set objects and a flag, and \<^verbatim>\<open>merge\<close> updates the receiver's set objects and flag
  in place.  Two usage objects, or two fields, may refer to the same set object.
\<close>

type_synonym addr = nat

record usage_obj =
  commands_ref :: addr
  blocks_ref :: addr
  positional_flag :: bool

record store =
  set_objs :: "addr \<Rightarrow> string set"
  usage_objs :: "addr \<Rightarrow> usage_obj"

text \<open>\<^verbatim>\<open>x.update(y)\<close> on two set objects.\<close>

definition set_update :: "store \<Rightarrow> addr \<Rightarrow> addr \<Rightarrow> store" where
  "set_update st x y = st\<lparr>set_objs := (set_objs st)(x := set_objs st x \<union> set_objs st y)\<rparr>"

definition merge_obj :: "store \<Rightarrow> addr \<Rightarrow> addr \<Rightarrow> store" where
  "merge_obj st self other =
     (let st1 = set_update st (commands_ref (usage_objs st self))
                              (commands_ref (usage_objs st other));
          st2 = set_update st1 (blocks_ref (usage_objs st1 self))
                               (blocks_ref (usage_objs st1 other))
      in if positional_flag (usage_objs st2 other)
         then st2\<lparr>usage_objs :=
                    (usage_objs st2)(self := (usage_objs st2 self)\<lparr>positional_flag := True\<rparr>)\<rparr>
         else st2)"

text \<open>The value of a usage object in a store: its three fields read.\<close>

definition usage_of :: "store \<Rightarrow> addr \<Rightarrow> FileUsage" where
  "usage_of st a =
     \<lparr>commands = set_objs st (commands_ref (usage_objs st a)),
      blocks = set_objs st (blocks_ref (usage_objs st a)),
      positional = positional_flag (usage_objs st a)\<rparr>"


section \<open>Notions of the specification\<close>






section \<open>Example inputs\<close>

text \<open>A scanner with the default configuration, and one configured with an upper-case
  extension.\<close>

definition default_scanner :: Scanner where
  "default_scanner = Scanner_init None None False"

definition upper_case_scanner :: Scanner where
  "upper_case_scanner = Scanner_init (Some {''.HTML''}) (Some [''node_modules'']) False"

text \<open>
  A directory \<^verbatim>\<open>t\<close> with three entries: \<^verbatim>\<open>a.html\<close> holds \<^verbatim>\<open><p _="show">\<close>, \<^verbatim>\<open>b.html\<close>
  holds no hyperscript, and \<^verbatim>\<open>c.html\<close> cannot be read.  No other path exists.
\<close>

definition example_fs :: filesystem where
  "example_fs =
     \<lparr>exists = (\<lambda>p. p \<in> {''t'', ''t/a.html'', ''t/b.html'', ''t/c.html''}),
      is_file = (\<lambda>p. p \<in> {''t/a.html'', ''t/b.html'', ''t/c.html''}),
      rglob = (\<lambda>d. if d = ''t'' then [''t/a.html'', ''t/b.html'', ''t/c.html''] else []),
      read_text = (\<lambda>p. if p = ''t/a.html'' then Inr (''<p _='' @ [dquote] @ ''show'' @ [dquote] @ ''>'')
                        else if p = ''t/b.html'' then Inr ''<p>hello</p>''
                        else if p = ''t/c.html'' then Inl PermissionError
                        else Inl FileNotFoundError)\<rparr>"

definition example_usage :: FileUsage where
  "example_usage = \<lparr>commands = {''show''}, blocks = {}, positional = False\<rparr>"

text \<open>
  Two stores.  In \<open>shared_store\<close> the receiver (object 0) has as its \<^verbatim>\<open>commands\<close> the set
  object that the argument (object 1) has as its \<^verbatim>\<open>blocks\<close>.  In \<open>fresh_store\<close> the four set
  objects are distinct, as for objects made by \<^verbatim>\<open>FileUsage()\<close>.
\<close>

definition shared_store :: store where
  "shared_store =
     \<lparr>set_objs = (\<lambda>x. if x = 12 then {''toggle''} else {}),
      usage_objs = (\<lambda>x. if x = 0
                         then \<lparr>commands_ref = 10, blocks_ref = 11, positional_flag = False\<rparr>
                         else \<lparr>commands_ref = 12, blocks_ref = 10, positional_flag = False\<rparr>)\<rparr>"

definition fresh_store :: store where
  "fresh_store =
     \<lparr>set_objs = (\<lambda>x. if x = 12 then {''toggle''} else if x = 11 then {''if''} else {}),
      usage_objs = (\<lambda>x. if x = 0
                         then \<lparr>commands_ref = 10, blocks_ref = 11, positional_flag = False\<rparr>
                         else \<lparr>commands_ref = 12, blocks_ref = 13, positional_flag = True\<rparr>)\<rparr>"


section \<open>Auxiliary notions for the proofs\<close>

text \<open>The invariant of the result mapping: every entry is non-empty and is the scan of
  its own path.\<close>

definition entries_ok :: "filesystem \<Rightarrow> Scanner \<Rightarrow> (path \<rightharpoonup> FileUsage) \<Rightarrow> bool" where
  "entries_ok fs sc results =
     (\<forall>p u. results p = Some u \<longrightarrow> usage_bool u \<and> fst (scan_file fs sc p) = Inr u)"

text \<open>
  What an expression matches, stated without the matcher: \<open>den fl r p w f\<close> holds when
  the text \<open>w\<close>, preceded by the character \<open>p\<close> and followed by the text \<open>f\<close>, is a
  match of \<open>r\<close>.  \<open>lastc p w\<close> is the character before the position reached after
  \<open>w\<close>, and \<open>ends p rest D\<close> the cursors reached from \<open>(p, rest)\<close> over a text
  that \<open>D\<close> accepts.
\<close>

fun lastc :: "char option \<Rightarrow> string \<Rightarrow> char option" where
  "lastc p [] = p"
| "lastc p (c # cs) = lastc (Some c) cs"

fun den :: "flag list \<Rightarrow> regex \<Rightarrow> char option \<Rightarrow> string \<Rightarrow> string \<Rightarrow> bool" where
  "den fl Eps p w f = (w = [])"
| "den fl (Lit xs) p w f = list_all2 (chr_eq fl) xs w"
| "den fl (One a) p w f = (\<exists>c. w = [c] \<and> atom_ok fl a c)"
| "den fl (Star a) p w f = list_all (atom_ok fl a) w"
| "den fl (Plus a) p w f = (w \<noteq> [] \<and> list_all (atom_ok fl a) w)"
| "den fl (LazyStar a) p w f = list_all (atom_ok fl a) w"
| "den fl (Opt a) p w f = (w = [] \<or> (\<exists>c. w = [c] \<and> atom_ok fl a c))"
| "den fl Bnd p w f = (w = [] \<and> at_boundary p f)"
| "den fl (Seq a b) p w f =
     (\<exists>u v. w = u @ v \<and> den fl a p u (v @ f) \<and> den fl b (lastc p u) v f)"
| "den fl (Alt a b) p w f = (den fl a p w f \<or> den fl b p w f)"





section \<open>Properties of the merge operation\<close>

text \<open>
  C2.  Seen as the function from two \<^verbatim>\<open>FileUsage\<close> values to the combined usage, merge is
  commutative, associative and idempotent.
\<close>

theorem merge_comm_assoc_idem:
  "merge a b = merge b a \<and> merge (merge a b) c = merge a (merge b c) \<and> merge a a = a"
  by (cases a) (auto simp: merge_def)

text \<open>
  The in-place merge leaves in the receiver the merge of the two values, when the
  receiver's \<^verbatim>\<open>commands\<close> set object is neither its own nor the argument's \<^verbatim>\<open>blocks\<close> set
  object.
\<close>

lemma merge_obj_refines_merge:
  assumes "commands_ref (usage_objs st a) \<noteq> blocks_ref (usage_objs st a)"
      and "commands_ref (usage_objs st a) \<noteq> blocks_ref (usage_objs st b)"
  shows "usage_of (merge_obj st a b) a = merge (usage_of st a) (usage_of st b)"
  using assms by (auto simp: merge_obj_def set_update_def usage_of_def merge_def Let_def)

text \<open>
  C10, as stated, fails: when the receiver's \<^verbatim>\<open>commands\<close> is the very set object that is
  the argument's \<^verbatim>\<open>blocks\<close>, \<^verbatim>\<open>a.merge(b)\<close> adds \<^verbatim>\<open>b\<close>'s commands to \<^verbatim>\<open>b\<close>'s blocks.
\<close>

theorem merge_obj_changes_shared_argument:
  "blocks (usage_of shared_store 1) = {} \<and>
   blocks (usage_of (merge_obj shared_store 0 1) 1) = {''toggle''}"
  by (simp add: shared_store_def merge_obj_def set_update_def usage_of_def Let_def)

text \<open>
  C10, amended.  When the receiver's \<^verbatim>\<open>commands\<close> set object is not the argument's
  \<^verbatim>\<open>blocks\<close> set object and the receiver's \<^verbatim>\<open>blocks\<close> set object is not the argument's
  \<^verbatim>\<open>commands\<close> set object, the argument's commands, blocks and positional flag are the
  same after \<^verbatim>\<open>a.merge(b)\<close> as before.  This covers \<^verbatim>\<open>a.merge(a)\<close> and all objects whose
  sets are their own.
\<close>

theorem merge_obj_frame:
  assumes "commands_ref (usage_objs st a) \<noteq> blocks_ref (usage_objs st b)"
      and "blocks_ref (usage_objs st a) \<noteq> commands_ref (usage_objs st b)"
  shows "usage_of (merge_obj st a b) b = usage_of st b"
  using assms by (auto simp: merge_obj_def set_update_def usage_of_def Let_def)

theorem merge_obj_frame_witness:
  "commands_ref (usage_objs fresh_store 0) \<noteq> blocks_ref (usage_objs fresh_store 1) \<and>
   blocks_ref (usage_objs fresh_store 0) \<noteq> commands_ref (usage_objs fresh_store 1) \<and>
   usage_of (merge_obj fresh_store 0 1) 1 = usage_of fresh_store 1 \<and>
   usage_of (merge_obj fresh_store 0 1) 0 =
     \<lparr>commands = {''toggle''}, blocks = {''if''}, positional = True\<rparr>"
proof -
  have h1: "commands_ref (usage_objs fresh_store 0) \<noteq> blocks_ref (usage_objs fresh_store 1)"
    by (simp add: fresh_store_def)
  have h2: "blocks_ref (usage_objs fresh_store 0) \<noteq> commands_ref (usage_objs fresh_store 1)"
    by (simp add: fresh_store_def)
  have "usage_of (merge_obj fresh_store 0 1) 0 =
     \<lparr>commands = {''toggle''}, blocks = {''if''}, positional = True\<rparr>"
    by (simp add: fresh_store_def merge_obj_def set_update_def usage_of_def Let_def)
  with h1 h2 merge_obj_frame[OF h1 h2] show ?thesis by simp
qed


section \<open>Properties of the file scanner\<close>

lemma starts_with_iff: "starts_with s pat \<longleftrightarrow> (\<exists>post. s = pat @ post)"
  by (induction s pat rule: starts_with.induct) auto

lemma py_in_iff: "py_in pat s \<longleftrightarrow> (\<exists>pre post. s = pre @ pat @ post)"
proof (induction s)
  case Nil
  then show ?case by auto
next
  case (Cons c cs)
  show ?case
  proof
    assume "py_in pat (c # cs)"
    then consider "starts_with (c # cs) pat" | "py_in pat cs" by auto
    then show "\<exists>pre post. c # cs = pre @ pat @ post"
    proof cases
      case 1
      then obtain post where "c # cs = pat @ post" by (auto simp: starts_with_iff)
      then have "c # cs = [] @ pat @ post" by simp
      then show ?thesis by blast
    next
      case 2
      then obtain pre post where "cs = pre @ pat @ post" using Cons.IH by auto
      then have "c # cs = (c # pre) @ pat @ post" by simp
      then show ?thesis by blast
    qed
  next
    assume "\<exists>pre post. c # cs = pre @ pat @ post"
    then obtain pre post where eq: "c # cs = pre @ pat @ post" by blast
    show "py_in pat (c # cs)"
    proof (cases pre)
      case Nil
      with eq have "starts_with (c # cs) pat" by (auto simp: starts_with_iff)
      then show ?thesis by simp
    next
      case (Cons x pre')
      with eq have "cs = pre' @ pat @ post" by simp
      then have "py_in pat cs" using Cons.IH by blast
      then show ?thesis by simp
    qed
  qed
qed

lemma code_char_of: "n < 256 \<Longrightarrow> code (char_of n) = n"
  by (simp add: code_def)

lemma code_lt: "code c < 256"
  by (simp add: code_def)

lemma py_lower_char_idem: "py_lower_char (py_lower_char c) = py_lower_char c"
  using code_lt[of c] by (auto simp: py_lower_char_def Let_def code_char_of)

lemma py_lower_idem: "py_lower (py_lower s) = py_lower s"
  by (simp add: py_lower_def py_lower_char_idem)

lemma should_scan_code:
  "should_scan sc p \<longleftrightarrow>
     py_lower (path_suffix p) \<in> include_extensions sc \<and>
     (\<forall>pat \<in> set (exclude_patterns sc). \<not> (\<exists>pre post. p = pre @ pat @ post))"
  by (auto simp: should_scan_def list_ex_iff py_in_iff)

text \<open>
  C4, as stated, fails for a configuration with an upper-case extension: the source
  lower-cases the path's suffix and looks it up in \<^verbatim>\<open>include_extensions\<close> as configured.
  With \<^verbatim>\<open>include_extensions = {".HTML"}\<close> the path \<^verbatim>\<open>a.html\<close> has an extension equal to a
  configured one up to case and contains no excluded substring, yet is not scanned.
\<close>

theorem should_scan_upper_case_extension:
  "include_extensions upper_case_scanner = {''.HTML''} \<and>
   exclude_patterns upper_case_scanner = [''node_modules''] \<and>
   py_lower ''.HTML'' = py_lower (path_suffix ''a.html'') \<and>
   \<not> py_in ''node_modules'' ''a.html'' \<and>
   \<not> should_scan upper_case_scanner ''a.html''"
  by code_simp

text \<open>
  C4, amended.  For every path and configuration, \<^verbatim>\<open>should_scan\<close> is true if and only if
  the path's extension, lower-cased, is a member of \<^verbatim>\<open>include_extensions\<close> and the path
  string contains no element of \<^verbatim>\<open>exclude_patterns\<close> as a substring.  When every
  configured extension is lower-case (as the defaults are) this is membership under
  case-insensitive comparison.  With the default configuration it is false for a path
  whose extension is eligible and whose string contains \<^verbatim>\<open>node_modules\<close>.
\<close>

theorem should_scan_lowered_suffix:
  "(should_scan sc p \<longleftrightarrow>
      py_lower (path_suffix p) \<in> include_extensions sc \<and>
      (\<forall>pat \<in> set (exclude_patterns sc). \<not> (\<exists>pre post. p = pre @ pat @ post))) \<and>
   ((\<forall>e \<in> include_extensions sc. py_lower e = e) \<longrightarrow>
      (should_scan sc p \<longleftrightarrow>
         (\<exists>e \<in> include_extensions sc. py_lower e = py_lower (path_suffix p)) \<and>
         (\<forall>pat \<in> set (exclude_patterns sc). \<not> (\<exists>pre post. p = pre @ pat @ post)))) \<and>
   (py_lower (path_suffix p) \<in> default_include_extensions \<and>
    (\<exists>pre post. p = pre @ ''node_modules'' @ post) \<longrightarrow>
      \<not> should_scan (Scanner_init None None dbg) p)"
proof (intro conjI impI)
  show "should_scan sc p \<longleftrightarrow>
      py_lower (path_suffix p) \<in> include_extensions sc \<and>
      (\<forall>pat \<in> set (exclude_patterns sc). \<not> (\<exists>pre post. p = pre @ pat @ post))"
    by (rule should_scan_code)
next
  assume low: "\<forall>e \<in> include_extensions sc. py_lower e = e"
  have "py_lower (path_suffix p) \<in> include_extensions sc \<longleftrightarrow>
        (\<exists>e \<in> include_extensions sc. py_lower e = py_lower (path_suffix p))"
    using low by (metis py_lower_idem)
  then show "should_scan sc p \<longleftrightarrow>
         (\<exists>e \<in> include_extensions sc. py_lower e = py_lower (path_suffix p)) \<and>
         (\<forall>pat \<in> set (exclude_patterns sc). \<not> (\<exists>pre post. p = pre @ pat @ post))"
    by (simp add: should_scan_code)
next
  assume "py_lower (path_suffix p) \<in> default_include_extensions \<and>
    (\<exists>pre post. p = pre @ ''node_modules'' @ post)"
  then show "\<not> should_scan (Scanner_init None None dbg) p"
    by (simp add: should_scan_code Scanner_init_def default_exclude_patterns_def)
qed

theorem should_scan_lowered_suffix_witness:
  "should_scan default_scanner ''templates/Base.HTML'' \<and>
   py_lower (path_suffix ''node_modules/pkg/Index.HTML'') \<in> default_include_extensions \<and>
   py_in ''node_modules'' ''node_modules/pkg/Index.HTML'' \<and>
   \<not> should_scan default_scanner ''node_modules/pkg/Index.HTML''"
proof -
  have low: "\<forall>e \<in> include_extensions default_scanner. py_lower e = e"
    by code_simp
  have ext: "\<exists>e \<in> include_extensions default_scanner.
               py_lower e = py_lower (path_suffix ''templates/Base.HTML'')"
    by code_simp
  have "\<forall>pat \<in> set (exclude_patterns default_scanner). \<not> py_in pat ''templates/Base.HTML''"
    by code_simp
  then have excl: "\<forall>pat \<in> set (exclude_patterns default_scanner).
                     \<not> (\<exists>pre post. ''templates/Base.HTML'' = pre @ pat @ post)"
    by (simp only: py_in_iff)
  from should_scan_lowered_suffix[of default_scanner "''templates/Base.HTML''" False]
    low ext excl
  have yes: "should_scan default_scanner ''templates/Base.HTML''"
    by blast
  have h2: "py_lower (path_suffix ''node_modules/pkg/Index.HTML'') \<in> default_include_extensions"
    by code_simp
  have h3: "py_in ''node_modules'' ''node_modules/pkg/Index.HTML''"
    by code_simp
  then have h4: "\<exists>pre post. ''node_modules/pkg/Index.HTML'' = pre @ ''node_modules'' @ post"
    by (simp only: py_in_iff)
  from should_scan_lowered_suffix[of default_scanner "''node_modules/pkg/Index.HTML''" False]
    h2 h4
  have "\<not> should_scan default_scanner ''node_modules/pkg/Index.HTML''"
    unfolding default_scanner_def by blast
  with yes h2 h3 show ?thesis by blast
qed



text \<open>
  C9.  The usage \<^verbatim>\<open>scan_content\<close> returns is the same whatever the debug flag of the
  scanner and whatever the label: they reach only the diagnostic line.
\<close>

theorem scan_content_ignores_debug_and_label:
  "fst (scan_content (sc\<lparr>debug := d1\<rparr>) content label1) =
   fst (scan_content (sc\<lparr>debug := d2\<rparr>) content label2)"
  by (simp add: scan_content_def Let_def)


section \<open>Properties of the tree aggregator\<close>



lemma entries_ok_empty: "entries_ok fs sc Map.empty"
  by (simp add: entries_ok_def)

lemma entries_ok_upd:
  "entries_ok fs sc results \<Longrightarrow> usage_bool u \<Longrightarrow> fst (scan_file fs sc p) = Inr u \<Longrightarrow>
   entries_ok fs sc (results(p \<mapsto> u))"
  by (simp add: entries_ok_def)

lemma entries_ok_add:
  "entries_ok fs sc r1 \<Longrightarrow> entries_ok fs sc r2 \<Longrightarrow> entries_ok fs sc (r1 ++ r2)"
  by (auto simp: entries_ok_def map_add_def split: option.splits)

lemma scan_paths_entries_ok:
  "entries_ok fs sc results \<Longrightarrow> fst (scan_paths fs sc ps results out) = Inr res \<Longrightarrow>
   entries_ok fs sc res"
proof (induction ps arbitrary: results out)
  case Nil
  then show ?case by simp
next
  case (Cons p ps)
  show ?case
  proof (cases "is_file fs p \<and> should_scan sc p")
    case False
    with Cons.prems have "fst (scan_paths fs sc ps results out) = Inr res" by auto
    with Cons.IH Cons.prems(1) show ?thesis by blast
  next
    case True
    obtain r lines where sf: "scan_file fs sc p = (r, lines)" by (cases "scan_file fs sc p")
    show ?thesis
    proof (cases r)
      case (Inl e)
      with True sf Cons.prems(2) show ?thesis by simp
    next
      case (Inr usage)
      show ?thesis
      proof (cases "usage_bool usage")
        case ub: True
        have "entries_ok fs sc (results(p \<mapsto> usage))"
          using Cons.prems(1) ub sf Inr by (intro entries_ok_upd) simp_all
        moreover have "fst (scan_paths fs sc ps (results(p \<mapsto> usage)) (out @ lines)) = Inr res"
          using Cons.prems(2) True sf Inr ub by simp
        ultimately show ?thesis using Cons.IH by blast
      next
        case ub: False
        have "fst (scan_paths fs sc ps results (out @ lines)) = Inr res"
          using Cons.prems(2) True sf Inr ub by simp
        then show ?thesis using Cons.IH Cons.prems(1) by blast
      qed
    qed
  qed
qed

lemma scan_directory_entries_ok:
  "fst (scan_directory fs sc d) = Inr res \<Longrightarrow> entries_ok fs sc res"
  by (auto simp: scan_directory_def entries_ok_empty split: if_splits
           intro: scan_paths_entries_ok[OF entries_ok_empty])

lemma scan_dirs_entries_ok:
  "entries_ok fs sc results \<Longrightarrow> fst (scan_dirs fs sc ds results out) = Inr res \<Longrightarrow>
   entries_ok fs sc res"
proof (induction ds arbitrary: results out)
  case Nil
  then show ?case by simp
next
  case (Cons d ds)
  obtain r lines where sd: "scan_directory fs sc d = (r, lines)" by (cases "scan_directory fs sc d")
  show ?case
  proof (cases r)
    case (Inl e)
    with sd Cons.prems(2) show ?thesis by simp
  next
    case (Inr dir_results)
    have "entries_ok fs sc dir_results"
      using scan_directory_entries_ok[of fs sc d dir_results] sd Inr by simp
    then have "entries_ok fs sc (results ++ dir_results)"
      using Cons.prems(1) by (rule entries_ok_add[rotated])
    moreover have "fst (scan_dirs fs sc ds (results ++ dir_results) (out @ lines)) = Inr res"
      using Cons.prems(2) sd Inr by simp
    ultimately show ?thesis using Cons.IH by blast
  qed
qed

lemma scan_directories_entries_ok:
  "fst (scan_directories fs sc ds) = Inr res \<Longrightarrow> entries_ok fs sc res"
  unfolding scan_directories_def by (rule scan_dirs_entries_ok[OF entries_ok_empty])

text \<open>
  C8.  In the mapping returned by \<^verbatim>\<open>scan_directory\<close> or by \<^verbatim>\<open>scan_directories\<close>, every
  stored \<^verbatim>\<open>FileUsage\<close> has a command, a block or the positional flag; and a path whose scan
  gives the empty usage (all three fields empty or false) has no entry.
\<close>

theorem recorded_usage_nonempty:
  assumes "fst (scan_directory fs sc d) = Inr res \<or> fst (scan_directories fs sc ds) = Inr res"
  shows "(\<forall>p u. res p = Some u \<longrightarrow>
            commands u \<noteq> {} \<or> blocks u \<noteq> {} \<or> positional u) \<and>
         (\<forall>p u. fst (scan_file fs sc p) = Inr u \<and>
                 commands u = {} \<and> blocks u = {} \<and> \<not> positional u \<longrightarrow> res p = None)"
proof -
  have ok: "entries_ok fs sc res"
    using assms scan_directory_entries_ok scan_directories_entries_ok by blast
  show ?thesis
  proof (intro conjI allI impI)
    fix p u assume "res p = Some u"
    with ok have "usage_bool u" by (simp add: entries_ok_def)
    then show "commands u \<noteq> {} \<or> blocks u \<noteq> {} \<or> positional u" by (simp add: usage_bool_def)
  next
    fix p u
    assume h: "fst (scan_file fs sc p) = Inr u \<and> commands u = {} \<and> blocks u = {} \<and> \<not> positional u"
    show "res p = None"
    proof (cases "res p")
      case None then show ?thesis .
    next
      case (Some v)
      with ok have "usage_bool v" "fst (scan_file fs sc p) = Inr v" by (simp_all add: entries_ok_def)
      with h show ?thesis by (simp add: usage_bool_def)
    qed
  qed
qed

lemma scan_file_a: "scan_file example_fs default_scanner ''t/a.html'' = (Inr example_usage, [])"
  by code_simp

lemma scan_file_b: "scan_file example_fs default_scanner ''t/b.html'' = (Inr FileUsage_new, [])"
  by code_simp

lemma scan_file_c: "scan_file example_fs default_scanner ''t/c.html'' = (Inr FileUsage_new, [])"
  by code_simp

lemma should_scan_examples:
  "should_scan default_scanner ''t/a.html''"
  "should_scan default_scanner ''t/b.html''"
  "should_scan default_scanner ''t/c.html''"
  by code_simp+

lemma scan_directory_example:
  "scan_directory example_fs default_scanner ''t'' = (Inr [''t/a.html'' \<mapsto> example_usage], [])"
proof -
  have e: "exists example_fs ''t''"
    "rglob example_fs ''t'' = [''t/a.html'', ''t/b.html'', ''t/c.html'']"
    "is_file example_fs ''t/a.html''" "is_file example_fs ''t/b.html''"
    "is_file example_fs ''t/c.html''"
    by (simp_all add: example_fs_def)
  have u: "usage_bool example_usage" "\<not> usage_bool FileUsage_new"
    by (simp_all add: usage_bool_def example_usage_def FileUsage_new_def)
  show ?thesis
    by (simp add: scan_directory_def e u scan_file_a scan_file_b scan_file_c should_scan_examples)
qed

theorem recorded_usage_nonempty_witness:
  "fst (scan_directory example_fs default_scanner ''t'') = Inr [''t/a.html'' \<mapsto> example_usage] \<and>
   usage_bool example_usage \<and>
   fst (scan_file example_fs default_scanner ''t/b.html'') = Inr FileUsage_new \<and>
   [''t/a.html'' \<mapsto> example_usage] ''t/b.html'' = None"
proof -
  have run: "fst (scan_directory example_fs default_scanner ''t'') =
               Inr [''t/a.html'' \<mapsto> example_usage]"
    by (simp add: scan_directory_example)
  have b: "fst (scan_file example_fs default_scanner ''t/b.html'') = Inr FileUsage_new"
    by (simp add: scan_file_b)
  have "[''t/a.html'' \<mapsto> example_usage] ''t/a.html'' = Some example_usage" by simp
  with recorded_usage_nonempty[of example_fs default_scanner "''t''"
      "[''t/a.html'' \<mapsto> example_usage]" "[]", OF disjI1[OF run]]
  have "commands example_usage \<noteq> {} \<or> blocks example_usage \<noteq> {} \<or> positional example_usage"
    by blast
  then have "usage_bool example_usage"
    by (simp only: usage_bool_def)
  with run b show ?thesis by simp
qed

section \<open>The matcher and what it matches\<close>













subsection \<open>Characters under IGNORECASE\<close>

lemma code_inj: "code c = code d \<longleftrightarrow> c = d"
  by (simp add: code_def)



lemma chr_eq_ic: "chr_eq [IGNORECASE] x c \<longleftrightarrow> py_lower_char x = py_lower_char c"
  by (simp add: chr_eq_def)


lemma list_all2_chr_eq_ic: "list_all2 (chr_eq [IGNORECASE]) xs w \<longleftrightarrow> py_lower w = py_lower xs"
proof (induction xs arbitrary: w)
  case Nil
  show ?case by (auto simp: py_lower_def)
next
  case (Cons x xs)
  show ?case
    using Cons.IH by (cases w) (auto simp: py_lower_def chr_eq_ic)
qed

lemma py_lower_append: "py_lower (u @ v) = py_lower u @ py_lower v"
  by (simp add: py_lower_def)










subsection \<open>Keyword patterns\<close>




subsection \<open>The repeat pattern\<close>





lemma den_Lit_ic: "den [IGNORECASE] (Lit xs) p w f \<longleftrightarrow> py_lower w = py_lower xs"
  by (simp add: list_all2_chr_eq_ic)





section \<open>Properties of the classifier\<close>















section \<open>The carriers feed one pipeline\<close>

lemma attribute_content: \<open>''_="toggle .foo"'' = ''_='' @ [dquote] @ ''toggle .foo'' @ [dquote]\<close>
  by (simp add: dquote_def)






end
